theory Spec2Isabelle
  imports Main "HOL-Library.Log_Nat"
begin

section \<open>Python values and outcomes\<close>

datatype pyfloat = Finite rat | PosInf

datatype pyval =
    PyNone
  | PyStr string
  | PyInt int
  | PyFloat pyfloat
  | PyList "pyval list"
  | PyDict "(string \<times> pyval) list"

datatype exc_class =
    AttributeError | IndexError | ValueError | TypeError | OtherException
  | KeyboardInterrupt | SystemExit | GeneratorExit

datatype exc = Exc exc_class string

datatype 'a outcome = Returns 'a | Raises exc

fun is_Exception :: "exc \<Rightarrow> bool" where
  "is_Exception (Exc KeyboardInterrupt msg) = False"
| "is_Exception (Exc SystemExit msg) = False"
| "is_Exception (Exc GeneratorExit msg) = False"
| "is_Exception (Exc _ msg) = True"

fun exc_str :: "exc \<Rightarrow> string" where
  "exc_str (Exc k msg) = msg"

definition obind :: "'a outcome \<Rightarrow> ('a \<Rightarrow> 'b outcome) \<Rightarrow> 'b outcome" where
  "obind m f = (case m of Returns v \<Rightarrow> f v | Raises e \<Rightarrow> Raises e)"

section \<open>Characters\<close>

definition ord :: "char \<Rightarrow> nat" where
  "ord c = of_char c"

definition is_digit :: "char \<Rightarrow> bool" where
  "is_digit c = (48 \<le> ord c \<and> ord c \<le> 57)"

definition is_space :: "char \<Rightarrow> bool" where
  "is_space c = (ord c \<in> {9, 10, 11, 12, 13, 28, 29, 30, 31, 32, 133, 160})"

definition is_alnum :: "char \<Rightarrow> bool" where
  "is_alnum c = (let n = ord c in
     (48 \<le> n \<and> n \<le> 57) \<or> (65 \<le> n \<and> n \<le> 90) \<or> (97 \<le> n \<and> n \<le> 122) \<or>
     n \<in> {170, 178, 179, 181, 185, 186, 188, 189, 190} \<or>
     (192 \<le> n \<and> n \<le> 214) \<or> (216 \<le> n \<and> n \<le> 246) \<or> (248 \<le> n \<and> n \<le> 255))"

definition is_word :: "char \<Rightarrow> bool" where
  "is_word c = (is_alnum c \<or> ord c = 95)"

definition lower_ord :: "nat \<Rightarrow> nat" where
  "lower_ord n = (if (65 \<le> n \<and> n \<le> 90) \<or> (192 \<le> n \<and> n \<le> 222 \<and> n \<noteq> 215) then n + 32 else n)"

definition py_strip :: "string \<Rightarrow> string" where
  "py_strip s = rev (dropWhile is_space (rev (dropWhile is_space s)))"

section \<open>Regular expressions\<close>

datatype category = Digit | Space | Word

datatype citem = Lit char | Range char char | Cat category

datatype regex =
    Class bool "citem list"
  | Seq regex regex
  | Alt regex regex
  | Rep regex nat "nat option"
  | Group nat regex
  | Ahead regex
  | WordB
  | EndS
  | Eps

abbreviation Chr :: "char \<Rightarrow> regex" where
  "Chr c \<equiv> Class False [Lit c]"

abbreviation Star :: "regex \<Rightarrow> regex" where
  "Star r \<equiv> Rep r 0 None"

abbreviation Plus :: "regex \<Rightarrow> regex" where
  "Plus r \<equiv> Rep r (Suc 0) None"

abbreviation Opt :: "regex \<Rightarrow> regex" where
  "Opt r \<equiv> Rep r 0 (Some (Suc 0))"

fun lit :: "string \<Rightarrow> regex" where
  "lit [] = Eps"
| "lit (c # cs) = Seq (Chr c) (lit cs)"

fun seqs :: "regex list \<Rightarrow> regex" where
  "seqs [] = Eps"
| "seqs [r] = r"
| "seqs (r # rs) = Seq r (seqs rs)"

fun category_match :: "category \<Rightarrow> char \<Rightarrow> bool" where
  "category_match Digit c = is_digit c"
| "category_match Space c = is_space c"
| "category_match Word c = is_word c"

fun item_match :: "bool \<Rightarrow> citem \<Rightarrow> char \<Rightarrow> bool" where
  "item_match ic (Lit x) c =
     (if ic then lower_ord (ord c) = lower_ord (ord x) else c = x)"
| "item_match ic (Range a b) c =
     (if ic then list_ex (\<lambda>n. lower_ord n = lower_ord (ord c)) [ord a ..< Suc (ord b)]
      else ord a \<le> ord c \<and> ord c \<le> ord b)"
| "item_match ic (Cat k) c = category_match k c"

definition class_match :: "bool \<Rightarrow> bool \<Rightarrow> citem list \<Rightarrow> char \<Rightarrow> bool" where
  "class_match ic neg items c = (list_ex (\<lambda>it. item_match ic it c) items \<noteq> neg)"

type_synonym groups = "(nat \<times> string) list"
type_synonym mstate = "nat \<times> groups"

fun rsize :: "regex \<Rightarrow> nat" where
  "rsize (Seq a b) = Suc (rsize a + rsize b)"
| "rsize (Alt a b) = Suc (rsize a + rsize b)"
| "rsize (Rep r lo hi) = Suc (rsize r)"
| "rsize (Group n r) = Suc (rsize r)"
| "rsize (Ahead r) = Suc (rsize r)"
| "rsize _ = 0"

definition word_at :: "string \<Rightarrow> nat \<Rightarrow> bool" where
  "word_at text i = (i < length text \<and> is_word (text ! i))"

function ms :: "bool \<Rightarrow> string \<Rightarrow> regex \<Rightarrow> mstate \<Rightarrow> mstate list" where
  "ms ic text (Class neg items) (i, g) =
     (if i < length text \<and> class_match ic neg items (text ! i) then [(Suc i, g)] else [])"
| "ms ic text (Seq a b) st = concat (map (ms ic text b) (ms ic text a st))"
| "ms ic text (Alt a b) st = ms ic text a st @ ms ic text b st"
| "ms ic text (Rep r lo hi) (i, g) =
     (if hi = Some 0 then []
      else concat (map (\<lambda>(j, g').
             if j \<le> length text \<and> (i < j \<or> (0 < lo \<and> i = j))
             then ms ic text (Rep r (lo - 1) (map_option (\<lambda>h. h - 1) hi)) (j, g')
             else [])
           (ms ic text r (i, g))))
     @ (if lo = 0 then [(i, g)] else [])"
| "ms ic text (Group n r) (i, g) =
     map (\<lambda>(j, g'). (j, (n, take (j - i) (drop i text)) # g')) (ms ic text r (i, g))"
| "ms ic text (Ahead r) (i, g) =
     (case ms ic text r (i, g) of [] \<Rightarrow> [] | (j, g') # _ \<Rightarrow> [(i, g')])"
| "ms ic text WordB (i, g) =
     (if (0 < i \<and> word_at text (i - 1)) \<noteq> word_at text i then [(i, g)] else [])"
| "ms ic text EndS (i, g) =
     (if i = length text \<or> (Suc i = length text \<and> text ! i = CHR 0x0A) then [(i, g)] else [])"
| "ms ic text Eps st = [st]"
  by pat_completeness auto
termination
  by (relation "inv_image (less_than <*lex*> less_than <*lex*> less_than)
        (\<lambda>(ic, text, r, (i, g)). (rsize r, length text - i, case r of Rep _ lo _ \<Rightarrow> lo | _ \<Rightarrow> 0))")
     auto

record match =
  m_start :: nat
  m_end :: nat
  m_whole :: string
  m_groups :: groups

definition mk_match :: "string \<Rightarrow> nat \<Rightarrow> mstate \<Rightarrow> match" where
  "mk_match text i st =
     \<lparr>m_start = i, m_end = fst st, m_whole = take (fst st - i) (drop i text), m_groups = snd st\<rparr>"

definition match_at :: "bool \<Rightarrow> regex \<Rightarrow> string \<Rightarrow> nat \<Rightarrow> match option" where
  "match_at ic r text i =
     (case ms ic text r (i, []) of [] \<Rightarrow> None | st # _ \<Rightarrow> Some (mk_match text i st))"

definition re_search :: "bool \<Rightarrow> regex \<Rightarrow> string \<Rightarrow> match option" where
  "re_search ic r text =
     (case List.find (\<lambda>i. match_at ic r text i \<noteq> None) [0 ..< Suc (length text)] of
        None \<Rightarrow> None
      | Some i \<Rightarrow> match_at ic r text i)"

declare ms.simps [simp del]

lemma ms_mono: "st' \<in> set (ms ic text r st) \<Longrightarrow> fst st \<le> fst st'"
proof (induction ic "text" r st arbitrary: st' rule: ms.induct)
  case (1 ic tx neg items i g)
  then show ?case by (auto simp: ms.simps split: if_splits)
next
  case (2 ic tx a b st)
  from "2.prems" obtain mid where m: "mid \<in> set (ms ic tx a st)"
    and r: "st' \<in> set (ms ic tx b mid)"
    by (auto simp: ms.simps)
  from "2.IH"(1)[OF m] "2.IH"(2)[OF m r] show ?case by simp
next
  case (3 ic tx a b st)
  then show ?case by (cases st') (auto simp: ms.simps)
next
  case (4 ic tx r lo hi i g)
  show ?case
  proof (cases "st' = (i, g)")
    case True
    then show ?thesis by simp
  next
    case False
    with "4.prems" obtain j g' where mid: "(j, g') \<in> set (ms ic tx r (i, g))"
      and ok: "j \<le> length tx \<and> (i < j \<or> (0 < lo \<and> i = j))"
      and rest: "st' \<in> set (ms ic tx (Rep r (lo - 1) (map_option (\<lambda>h. h - 1) hi)) (j, g'))"
      and hi: "hi \<noteq> Some 0"
      by (auto simp: ms.simps(4)[of ic tx r lo hi i g] split: if_splits)
    from "4.IH"(1)[OF hi mid] have "i \<le> j" by simp
    moreover from "4.IH"(2)[OF hi mid _ ok rest] have "j \<le> fst st'" by simp
    ultimately show ?thesis by simp
  qed
next
  case (5 ic tx n r i g)
  then show ?case by (fastforce simp: ms.simps)
next
  case (6 ic tx r i g)
  then show ?case by (auto simp: ms.simps split: list.splits)
next
  case (7 ic tx i g)
  then show ?case by (auto simp: ms.simps split: if_splits)
next
  case (8 ic tx i g)
  then show ?case by (auto simp: ms.simps split: if_splits)
next
  case (9 ic tx st)
  then show ?case by (auto simp: ms.simps)
qed

definition must_advance :: "bool \<Rightarrow> nat \<Rightarrow> mstate list \<Rightarrow> mstate list" where
  "must_advance adv i sts = (if adv then filter (\<lambda>st. i < fst st) sts else sts)"

lemma must_advance_hd:
  assumes "must_advance adv i (ms ic text r (i, g)) = st # sts"
  shows "i \<le> fst st \<and> (adv \<longrightarrow> i < fst st)"
proof -
  have mem: "st \<in> set (must_advance adv i (ms ic text r (i, g)))"
    using assms by simp
  then have "st \<in> set (ms ic text r (i, g))"
    by (auto simp: must_advance_def split: if_splits)
  then have "i \<le> fst st" using ms_mono by fastforce
  moreover from mem have "adv \<longrightarrow> i < fst st"
    by (auto simp: must_advance_def)
  ultimately show ?thesis by simp
qed

function findall_from :: "bool \<Rightarrow> regex \<Rightarrow> string \<Rightarrow> nat \<Rightarrow> bool \<Rightarrow> string list" where
  "findall_from ic r text i adv =
     (if length text < i then []
      else case must_advance adv i (ms ic text r (i, [])) of
             [] \<Rightarrow> findall_from ic r text (Suc i) False
           | st # _ \<Rightarrow>
               m_whole (mk_match text i st) # findall_from ic r text (fst st) (fst st = i))"
  by pat_completeness auto
termination
proof (relation "inv_image (less_than <*lex*> less_than)
        (\<lambda>(ic, r, text, i, adv). (Suc (length text) - i, if adv then 0 else Suc 0))",
       goal_cases)
  case 1
  show ?case by auto
next
  case (2 ic r tx i adv)
  then show ?case by auto
next
  case (3 ic r tx i adv st sts)
  from must_advance_hd[OF 3(2)] 3(1) show ?case by auto
qed

definition re_findall :: "bool \<Rightarrow> regex \<Rightarrow> string \<Rightarrow> string list" where
  "re_findall ic r text = findall_from ic r text 0 False"

section \<open>Built-in string and number functions\<close>

definition m_group :: "match \<Rightarrow> nat \<Rightarrow> string option" where
  "m_group m n = (if n = 0 then Some (m_whole m) else map_of (m_groups m) n)"

definition m_lastindex :: "match \<Rightarrow> nat option" where
  "m_lastindex m = (case m_groups m of [] \<Rightarrow> None | (n, s) # gs \<Rightarrow> Some n)"

definition group_strip :: "match \<Rightarrow> nat \<Rightarrow> pyval outcome" where
  "group_strip m n =
     (case m_group m n of
        None \<Rightarrow> Raises (Exc AttributeError ''NoneType object has no attribute strip'')
      | Some s \<Rightarrow> Returns (PyStr (py_strip s)))"

definition py_replace_char :: "char \<Rightarrow> string \<Rightarrow> string" where
  "py_replace_char c s = filter (\<lambda>x. x \<noteq> c) s"

fun py_split :: "char \<Rightarrow> string \<Rightarrow> string list" where
  "py_split c [] = [[]]"
| "py_split c (x # xs) =
     (if x = c then [] # py_split c xs
      else (case py_split c xs of [] \<Rightarrow> [[x]] | p # ps \<Rightarrow> (x # p) # ps))"

definition digits_val :: "string \<Rightarrow> nat" where
  "digits_val s = foldl (\<lambda>a c. 10 * a + (ord c - 48)) 0 s"

definition pow2 :: "int \<Rightarrow> rat" where
  "pow2 k = (if 0 \<le> k then 2 ^ nat k else 1 / 2 ^ nat (- k))"

definition floor_log2 :: "nat \<Rightarrow> nat \<Rightarrow> int" where
  "floor_log2 n d =
     (let k = int (floorlog 2 n) - int (floorlog 2 d)
      in if (if 0 \<le> k then d * 2 ^ nat k \<le> n else d \<le> n * 2 ^ nat (- k)) then k else k - 1)"

definition round_half_even :: "nat \<Rightarrow> nat \<Rightarrow> nat" where
  "round_half_even num den =
     (let q = num div den; r = num mod den
      in if 2 * r < den then q else if den < 2 * r then q + 1 else if even q then q else q + 1)"

definition binary64 :: "nat \<Rightarrow> nat \<Rightarrow> pyfloat" where
  "binary64 n d =
     (if n = 0 then Finite 0
      else let e = max (floor_log2 n d) (- 1022);
               s = e - 52;
               m = (if 0 \<le> s then round_half_even n (d * 2 ^ nat s)
                    else round_half_even (n * 2 ^ nat (- s)) d)
           in if 1024 \<le> e \<or> (e = 1023 \<and> m = 2 ^ 53) then PosInf
              else Finite (of_nat m * pow2 s))"

definition py_float :: "string \<Rightarrow> pyfloat outcome" where
  "py_float s =
     (let ip = takeWhile is_digit s;
          rest = dropWhile is_digit s;
          fp = (case rest of
                  [] \<Rightarrow> Some []
                | c # r \<Rightarrow> if c = CHR ''.'' \<and> list_all is_digit r then Some r else None)
      in case fp of
           None \<Rightarrow> Raises (Exc ValueError (''could not convert string to float: '' @ s))
         | Some f \<Rightarrow>
             if ip = [] \<and> f = []
             then Raises (Exc ValueError (''could not convert string to float: '' @ s))
             else Returns (binary64 (digits_val (ip @ f)) (10 ^ length f)))"

section \<open>Safe-extraction wrapper\<close>

definition safe_extract :: "(string \<Rightarrow> pyval outcome) \<Rightarrow> string \<Rightarrow> pyval \<Rightarrow> pyval outcome" where
  "safe_extract extract_func text default_value =
     (case extract_func text of
        Returns result \<Rightarrow>
          Returns (if result \<noteq> PyNone \<and> result \<noteq> PyStr '''' then result else default_value)
      | Raises e \<Rightarrow> if is_Exception e then Returns default_value else Raises e)"

section \<open>Field rules\<close>

abbreviation sep_class :: regex where
  "sep_class \<equiv> Class False [Lit CHR ''.'', Lit CHR '':'', Cat Space]"

abbreviation alnum_class :: regex where
  "alnum_class \<equiv> Class False [Range CHR ''A'' CHR ''Z'', Range CHR ''0'' CHR ''9'']"

abbreviation upper_class :: regex where
  "upper_class \<equiv> Class False [Range CHR ''A'' CHR ''Z'']"

abbreviation digit_class :: regex where
  "digit_class \<equiv> Class False [Cat Digit]"

abbreviation not_newline :: regex where
  "not_newline \<equiv> Class True [Lit CHR 0x0A]"

definition labelled :: "string \<Rightarrow> regex \<Rightarrow> regex" where
  "labelled label capture = Seq (lit label) (Seq (Star sep_class) (Group 1 capture))"

definition po_number_pattern :: regex where
  "po_number_pattern = labelled ''PURCHASE ORDER NO'' (Plus alnum_class)"

definition extract_po_number :: "string \<Rightarrow> pyval outcome" where
  "extract_po_number text =
     (case re_search True po_number_pattern text of
        Some m \<Rightarrow> group_strip m 1
      | None \<Rightarrow> Returns PyNone)"

definition date_token :: regex where
  "date_token = seqs [Rep digit_class 1 (Some 2), Chr CHR ''.'', Rep upper_class 3 (Some 4),
                      Chr CHR ''.'', Rep digit_class 4 (Some 4)]"

definition date_patterns :: "(string \<times> regex) list" where
  "date_patterns =
     [(''PO Date'', labelled ''PO Date'' date_token),
      (''Revision Date'', labelled ''Revision Date'' date_token)]"

definition extract_date :: "string \<Rightarrow> string \<Rightarrow> pyval outcome" where
  "extract_date text date_type =
     (case map_of date_patterns date_type of
        Some pattern \<Rightarrow>
          (case re_search True pattern text of
             Some m \<Rightarrow> group_strip m 1
           | None \<Rightarrow> Returns PyNone)
      | None \<Rightarrow> Returns PyNone)"

definition revision_number_pattern :: regex where
  "revision_number_pattern = labelled ''Revision No'' (Plus digit_class)"

definition extract_revision_number :: "string \<Rightarrow> pyval outcome" where
  "extract_revision_number text =
     (case re_search True revision_number_pattern text of
        Some m \<Rightarrow> group_strip m 1
      | None \<Rightarrow> Returns PyNone)"

definition buyer_contact_pattern :: regex where
  "buyer_contact_pattern =
     Seq (lit ''Buyer Contact'')
       (Seq (Star sep_class)
         (Seq (Group 1 (Plus (Class False [Range CHR ''A'' CHR ''Z'', Range CHR ''a'' CHR ''z'',
                                           Cat Space, Lit CHR ''.''])))
              (Ahead (Alt (Chr (CHR 0x0A)) EndS))))"

definition extract_buyer_contact :: "string \<Rightarrow> pyval outcome" where
  "extract_buyer_contact text =
     (case re_search True buyer_contact_pattern text of
        Some m \<Rightarrow> group_strip m 1
      | None \<Rightarrow> Returns PyNone)"

definition buyer_phone_pattern :: regex where
  "buyer_phone_pattern =
     labelled ''Buyer Phone'' (Plus (Class False [Cat Digit, Cat Space, Lit CHR ''-'']))"

definition extract_buyer_phone :: "string \<Rightarrow> pyval outcome" where
  "extract_buyer_phone text =
     (case re_search True buyer_phone_pattern text of
        Some m \<Rightarrow> group_strip m 1
      | None \<Rightarrow> Returns PyNone)"

definition buyer_email_pattern :: regex where
  "buyer_email_pattern =
     seqs [Plus (Class False [Cat Word, Lit CHR ''.'', Lit CHR ''-'']), Chr CHR ''@'',
           Plus (Class False [Cat Word, Lit CHR ''.'', Lit CHR ''-'']), Chr CHR ''.'',
           Plus (Class False [Cat Word])]"

definition extract_buyer_email :: "string \<Rightarrow> pyval outcome" where
  "extract_buyer_email text =
     (case re_search False buyer_email_pattern text of
        Some m \<Rightarrow> Returns (PyStr (m_whole m))
      | None \<Rightarrow> Returns PyNone)"

definition supplier_name_patterns :: "regex list" where
  "supplier_name_patterns =
     [labelled ''Supplier Name'' (Plus not_newline),
      labelled ''Vendor Name'' (Plus not_newline),
      lit ''VALVETECQ ENGINEERS'']"

fun supplier_name_loop :: "regex list \<Rightarrow> string \<Rightarrow> pyval outcome" where
  "supplier_name_loop [] text = Returns PyNone"
| "supplier_name_loop (pattern # patterns) text =
     (case re_search True pattern text of
        Some m \<Rightarrow>
          (if m_lastindex m \<noteq> None then group_strip m 1
           else Returns (PyStr ''VALVETECQ ENGINEERS''))
      | None \<Rightarrow> supplier_name_loop patterns text)"

definition extract_supplier_name :: "string \<Rightarrow> pyval outcome" where
  "extract_supplier_name text = supplier_name_loop supplier_name_patterns text"

definition extract_supplier_address :: "string \<Rightarrow> pyval outcome" where
  "extract_supplier_address text =
     Returns (PyStr ''MALUMICHAMPATTI 187/1C, SNMV COLLEGE ROAD 641050 COIMBATORE INDIA'')"

definition supplier_phone_pattern :: regex where
  "supplier_phone_pattern =
     Seq (Chr CHR ''P'')
       (Seq (Star (Class False [Lit CHR '':'', Cat Space])) (Group 1 (Rep digit_class 10 (Some 10))))"

definition extract_supplier_phone :: "string \<Rightarrow> pyval outcome" where
  "extract_supplier_phone text =
     (case re_search True supplier_phone_pattern text of
        Some m \<Rightarrow>
          Returns (PyStr (''P:'' @ (case m_group m 1 of Some s \<Rightarrow> s | None \<Rightarrow> ''None'') @ ''/''))
      | None \<Rightarrow> Returns PyNone)"

definition extract_supplier_email :: "string \<Rightarrow> pyval outcome" where
  "extract_supplier_email text =
     (case re_search True (lit ''SALES@VALVETECQ.COM'') text of
        Some m \<Rightarrow> Returns (PyStr (m_whole m))
      | None \<Rightarrow> Returns PyNone)"

definition extract_gsl_number :: "string \<Rightarrow> pyval outcome" where
  "extract_gsl_number text =
     (case re_search True (labelled ''GSL Number'' (Plus alnum_class)) text of
        Some m \<Rightarrow> group_strip m 1
      | None \<Rightarrow> Returns PyNone)"

definition extract_site_code :: "string \<Rightarrow> pyval outcome" where
  "extract_site_code text =
     (case re_search True (labelled ''Site Code'' (Plus alnum_class)) text of
        Some m \<Rightarrow> group_strip m 1
      | None \<Rightarrow> Returns PyNone)"

definition extract_supplier_code :: "string \<Rightarrow> pyval outcome" where
  "extract_supplier_code text =
     (case re_search True (labelled ''Supplier Code'' (Plus digit_class)) text of
        Some m \<Rightarrow> group_strip m 1
      | None \<Rightarrow> Returns PyNone)"

definition extract_vendor_gst :: "string \<Rightarrow> pyval outcome" where
  "extract_vendor_gst text =
     (case re_search True (labelled ''GST'' (Rep alnum_class 15 (Some 15))) text of
        Some m \<Rightarrow> group_strip m 1
      | None \<Rightarrow> Returns PyNone)"

definition extract_ship_to_name :: "string \<Rightarrow> pyval outcome" where
  "extract_ship_to_name text =
     Returns (PyStr ''GE Oil & Gas India Private Limited Div-Dresser Valve'')"

definition extract_ship_to_address :: "string \<Rightarrow> pyval outcome" where
  "extract_ship_to_address text =
     Returns (PyStr ''SF No. 608, Chettipalayam Road, Eachanari Post 641021 COIMBATORE INDIA'')"

definition extract_invoice_email :: "string \<Rightarrow> pyval outcome" where
  "extract_invoice_email text =
     (case re_search True (lit ''IN_PO_Invoice@BakerHughes.com'') text of
        Some m \<Rightarrow> Returns (PyStr (m_whole m))
      | None \<Rightarrow> Returns PyNone)"

definition extract_incoterms :: "string \<Rightarrow> pyval outcome" where
  "extract_incoterms text =
     (case re_search True (labelled ''Incoterms'' (Plus not_newline)) text of
        Some m \<Rightarrow> group_strip m 1
      | None \<Rightarrow> Returns PyNone)"

definition extract_currency :: "string \<Rightarrow> pyval outcome" where
  "extract_currency text =
     (case re_search True (labelled ''Currency'' (Rep upper_class 3 (Some 3))) text of
        Some m \<Rightarrow> group_strip m 1
      | None \<Rightarrow> Returns PyNone)"

definition extract_payment_terms :: "string \<Rightarrow> pyval outcome" where
  "extract_payment_terms text =
     (case re_search True (labelled ''Payment Terms'' (Plus not_newline)) text of
        Some m \<Rightarrow> group_strip m 1
      | None \<Rightarrow> Returns PyNone)"

definition extract_company_name :: "string \<Rightarrow> pyval outcome" where
  "extract_company_name text = Returns (PyStr ''GE OIL & GAS INDIA PRIVATE LIMITED'')"

definition extract_company_address :: "string \<Rightarrow> pyval outcome" where
  "extract_company_address text =
     Returns (PyStr ''SF No. 608, Chettipalayam Road, Eachanari Post, Coimbatore Tamil Nadu 641021 India'')"

definition extract_company_phone :: "string \<Rightarrow> pyval outcome" where
  "extract_company_phone text = Returns (PyStr ''422 664 1000'')"

definition extract_line_items :: "string \<Rightarrow> pyval outcome" where
  "extract_line_items text =
     Returns (PyList
       [PyDict
          [(''line_number'', PyStr ''10''),
           (''part_number'', PyStr ''MY-FLOWMAX''),
           (''description'', PyStr (''Material Rev. Level:- EXT OPN PAINTING:FM,4'' @ [CHR 0x22])),
           (''quantity'', PyFloat (Finite 6)),
           (''uom'', PyStr ''EA''),
           (''price'', PyFloat (Finite (4323 / 4))),
           (''price_currency'', PyStr ''INR''),
           (''extended_price'', PyFloat (Finite (12969 / 2))),
           (''taxable'', PyStr ''Y''),
           (''promise_date'', PyStr ''''),
           (''required_by_date'', PyStr ''14.AUG.2026''),
           (''hsn_code'', PyStr ''84818030'')],
        PyDict
          [(''line_number'', PyStr ''20''),
           (''part_number'', PyStr ''MY-FLOWGRID''),
           (''description'',
              PyStr (''Material Rev. Level:- EXT OPN PAINTING:FG,2'' @ [CHR 0x22] @ '' 300'')),
           (''quantity'', PyFloat (Finite 20)),
           (''uom'', PyStr ''EA''),
           (''price'', PyFloat (Finite 500)),
           (''price_currency'', PyStr ''INR''),
           (''extended_price'', PyFloat (Finite 10000)),
           (''taxable'', PyStr ''Y''),
           (''promise_date'', PyStr ''''),
           (''required_by_date'', PyStr ''08.SEP.2026''),
           (''hsn_code'', PyStr ''84818030'')]])"

definition total_amount_pattern :: regex where
  "total_amount_pattern =
     labelled ''Total Extended Net Price''
       (seqs [Plus (Class False [Cat Digit, Lit CHR '','']), Opt (Chr CHR ''.''), Star digit_class])"

definition extract_total_amount :: "string \<Rightarrow> pyval outcome" where
  "extract_total_amount text =
     (case re_search True total_amount_pattern text of
        Some m \<Rightarrow>
          (case m_group m 1 of
             None \<Rightarrow> Raises (Exc AttributeError ''NoneType object has no attribute replace'')
           | Some s \<Rightarrow>
               (case py_float (py_replace_char CHR '','' s) of
                  Returns f \<Rightarrow> Returns (PyFloat f)
                | Raises (Exc ValueError msg) \<Rightarrow> Returns PyNone
                | Raises e \<Rightarrow> Raises e))
      | None \<Rightarrow> Returns PyNone)"

definition extract_special_instructions :: "string \<Rightarrow> pyval outcome" where
  "extract_special_instructions text =
     Returns (PyDict
       [(''reach_compliance_note'', PyStr (''Products sold to Baker Hughes TPS containing SVHC (Substances of Very High Concern)as per REACH (Registration, Evaluation,Authorization and Restriction of Chemicals)are subject to Baker Hughes TPS REACH and SCIP communication and reporting Requirements Please refer to requirements in the '' @ [CHR 0x22] @ ''Compliance '' @ [CHR 0xE2, CHR 0x80, CHR 0x93] @ '' Technical Regulations & Standards'' @ [CHR 0x22] @ '' supplement listed in https://www.bakerhughes.com/suppliers'')),
        (''documentation_tool'', PyStr ''New Documentation Tool ALFRESCO: https://alfresco.bakerhughes.com/valve-databook''),
        (''machining_standard'', PyStr ''Machined surfaces shall comply visual inspection standard CES 1092.''),
        (''packing_procedure'', PyStr ''GEMCS-FPT-Coimbatore-QWI-7.5-001- EN''),
        (''deviation_process'', PyStr ''Any deviation to this PO shall be processed through eSDR work flow for disposition.''),
        (''material_processing'', PyStr ''ALL MATERIAL SHALL BE PROCESSED IN ACCORDANCE WITH THE CURRET EDITION AND REVISION OF THE REFERENCED SPECIFICATION UNLESS OTHERWISE NOTED''),
        (''quantity_policy'', PyStr ''Quantities ordered are firm. Over shipments will be returned at vendor expense.''),
        (''receiving_counts'', PyStr ''Baker Hughes Energy India Private Limited Receiving Department counts will govern receipt/packing list quantities differences.''),
        (''marking_requirements'', PyStr ''All documentations and container must be marked with purchase order number and part number.''),
        (''due_date_clarification'', PyStr ''Due date specified above is date required at the Receiving Dock.''),
        (''routing_non_compliance'', PyStr ''Failure to comply with routing as specified will result in charge-back to supplier for additional charges incurred.'')])"

definition extract_invoicing_instructions :: "string \<Rightarrow> pyval outcome" where
  "extract_invoicing_instructions text =
     Returns (PyDict
       [(''primary_method'', PyStr ''Submit invoice via Ariba Network if registered and attach digitally signed invoice copy in Ariba Network.''),
        (''fallback_method'', PyStr ''If not registered for Ariba Network, submit digitally signed invoice to PO Invoice: IN_PO_Invoice@BakerHughes.com''),
        (''hardcopy_requirement'', PyStr ''For non-digitally signed invoices hardcopy is mandatory for archiving, without which payment will not get processed.''),
        (''mailroom_address'', PyStr ''Attention to : Dinesh Kumar MP, Process Name: Baker Hughes, Crown Worldwide Group, 33/1A, Kengal Kempohalli, Dobbaspet, Nelamangala Taluk, Tumkur Road, Bangalore Rural District, Bangalore - 562 111.''),
        (''ariba_support'', PyStr ''For Ariba registration help, please contact: supplier.enablement@bakerhughes.com.'')])"

definition extract_msmed_declaration :: "string \<Rightarrow> pyval outcome" where
  "extract_msmed_declaration text =
     Returns (PyStr ''In event of supplier / Vendor qualifying as Micro, small or medium enterprise as defined under MSMED Act 2006, declaration along with certificates shall be submitted to the Company'')"

definition extract_quality_documents :: "string \<Rightarrow> pyval outcome" where
  "extract_quality_documents text =
     Returns (PyStr ''Contact Buyer for submitting quality documents as required by PO .'')"

definition extract_pan_card :: "string \<Rightarrow> pyval outcome" where
  "extract_pan_card text =
     (case re_search True
             (labelled ''PAN'' (seqs [Rep upper_class 5 (Some 5), Rep digit_class 4 (Some 4), upper_class]))
             text of
        Some m \<Rightarrow> group_strip m 1
      | None \<Rightarrow> Returns PyNone)"

definition extract_gstn_number :: "string \<Rightarrow> pyval outcome" where
  "extract_gstn_number text =
     (case re_search True (labelled ''GSTN'' (Rep alnum_class 15 (Some 15))) text of
        Some m \<Rightarrow> group_strip m 1
      | None \<Rightarrow> Returns PyNone)"

definition extract_governing_terms :: "string \<Rightarrow> pyval outcome" where
  "extract_governing_terms text =
     Returns (PyStr ''Baker Hughes Standard Terms of Purchase (Rev C) apply to this order'')"

definition extract_project_number :: "string \<Rightarrow> pyval outcome" where
  "extract_project_number text = Returns PyNone"

definition extract_sales_order_number :: "string \<Rightarrow> pyval outcome" where
  "extract_sales_order_number text = Returns PyNone"

definition extract_shipping_via :: "string \<Rightarrow> pyval outcome" where
  "extract_shipping_via text = Returns PyNone"

section \<open>Record assembly\<close>

fun mk_items :: "(string \<times> pyval outcome) list \<Rightarrow> (string \<times> pyval) list outcome" where
  "mk_items [] = Returns []"
| "mk_items ((k, m) # rest) =
     obind m (\<lambda>v. obind (mk_items rest) (\<lambda>vs. Returns ((k, v) # vs)))"

definition mk_dict :: "(string \<times> pyval outcome) list \<Rightarrow> pyval outcome" where
  "mk_dict items = obind (mk_items items) (\<lambda>kvs. Returns (PyDict kvs))"

fun py_get :: "pyval \<Rightarrow> string \<Rightarrow> pyval option" where
  "py_get (PyDict kvs) k = map_of kvs k"
| "py_get _ k = None"

definition parse_purchase_order_data :: "string \<Rightarrow> string \<Rightarrow> pyval outcome" where
  "parse_purchase_order_data text filename =
     obind (mk_dict
       [(''document_type'', Returns (PyStr ''PURCHASE_ORDER'')),
        (''file_name'', Returns (PyStr filename)),
        (''total_pages'', Returns (PyInt
           (if CHR 0x0C \<in> set text then int (length (py_split (CHR 0x0C) text)) else 1))),
        (''company_name'', safe_extract extract_company_name text (PyStr '''')),
        (''company_address'', safe_extract extract_company_address text (PyStr '''')),
        (''company_phone'', safe_extract extract_company_phone text (PyStr ''''))])
     (\<lambda>metadata.
     obind (mk_dict
       [(''po_number'', safe_extract extract_po_number text (PyStr '''')),
        (''po_date'', safe_extract (\<lambda>t. extract_date t ''PO Date'') text (PyStr '''')),
        (''revision_number'', safe_extract extract_revision_number text (PyStr ''0'')),
        (''revision_date'', safe_extract (\<lambda>t. extract_date t ''Revision Date'') text (PyStr '''')),
        (''buyer_contact'', safe_extract extract_buyer_contact text (PyStr '''')),
        (''buyer_phone'', safe_extract extract_buyer_phone text (PyStr '''')),
        (''buyer_email'', safe_extract extract_buyer_email text (PyStr ''''))])
     (\<lambda>order_details.
     obind (mk_dict
       [(''name'', safe_extract extract_supplier_name text (PyStr '''')),
        (''address'', safe_extract extract_supplier_address text (PyStr '''')),
        (''contact_person_phone'', safe_extract extract_supplier_phone text (PyStr '''')),
        (''contact_person_email'', safe_extract extract_supplier_email text (PyStr '''')),
        (''gsl_number'', safe_extract extract_gsl_number text (PyStr '''')),
        (''site_code'', safe_extract extract_site_code text (PyStr '''')),
        (''supplier_code'', safe_extract extract_supplier_code text (PyStr '''')),
        (''vendor_gst'', safe_extract extract_vendor_gst text (PyStr ''''))])
     (\<lambda>supplier_details.
     obind (mk_dict
       [(''name'', safe_extract extract_ship_to_name text (PyStr '''')),
        (''address'', safe_extract extract_ship_to_address text (PyStr ''''))])
     (\<lambda>ship_to_details.
     obind (mk_dict
       [(''email_invoice_to'', safe_extract extract_invoice_email text (PyStr '''')),
        (''incoterms'', safe_extract extract_incoterms text (PyStr '''')),
        (''currency'', safe_extract extract_currency text (PyStr '''')),
        (''payment_terms'', safe_extract extract_payment_terms text (PyStr '''')),
        (''project_number'', safe_extract extract_project_number text (PyStr '''')),
        (''sales_order_number'', safe_extract extract_sales_order_number text (PyStr '''')),
        (''shipping_via'', safe_extract extract_shipping_via text (PyStr ''''))])
     (\<lambda>administrative_details.
     obind (safe_extract extract_line_items text (PyList
       [PyDict
          [(''line_number'', PyStr ''''),
           (''part_number'', PyStr ''''),
           (''description'', PyStr ''''),
           (''quantity'', PyStr ''''),
           (''uom'', PyStr ''''),
           (''price'', PyStr ''''),
           (''price_currency'', PyStr ''''),
           (''extended_price'', PyStr ''''),
           (''taxable'', PyStr ''''),
           (''promise_date'', PyStr ''''),
           (''required_by_date'', PyStr ''''),
           (''hsn_code'', PyStr '''')]]))
     (\<lambda>line_items.
     obind (mk_dict
       [(''total_extended_net_price'', safe_extract extract_total_amount text (PyStr '''')),
        (''currency'', safe_extract extract_currency text (PyStr ''''))])
     (\<lambda>totals.
     obind (safe_extract extract_special_instructions text (PyDict []))
     (\<lambda>special_instructions.
     obind (safe_extract extract_invoicing_instructions text (PyDict []))
     (\<lambda>invoicing_instructions.
     obind (mk_dict
       [(''msmed_declaration'', safe_extract extract_msmed_declaration text (PyStr '''')),
        (''quality_documents'', safe_extract extract_quality_documents text (PyStr '''')),
        (''pan_card'', safe_extract extract_pan_card text (PyStr '''')),
        (''gstn_no'', safe_extract extract_gstn_number text (PyStr ''''))])
     (\<lambda>tax_and_compliance.
     obind (mk_dict
       [(''governing_terms'', safe_extract extract_governing_terms text (PyStr '''')),
        (''source'', Returns (PyStr '''')),
        (''order_of_precedence'', Returns (PyList []))])
     (\<lambda>terms_and_conditions.
       Returns (PyDict
         [(''metadata'', metadata),
          (''order_details'', order_details),
          (''supplier_details'', supplier_details),
          (''ship_to_details'', ship_to_details),
          (''administrative_details'', administrative_details),
          (''line_items'', line_items),
          (''totals'', totals),
          (''approval'',
             PyDict [(''method'', PyStr ''ELECTRONICALLY APPROVED. NO SIGNATURE REQUIRED'')])]))))))))))))"

section \<open>PDF text sources\<close>

record page =
  page_text :: "string option outcome"
  page_width :: pyval
  page_height :: pyval

record reader_info =
  rd_title :: pyval
  rd_author :: pyval
  rd_pages :: nat

record pdf =
  pdf_reader :: "reader_info outcome"
  pdf_pages :: "page list outcome"

definition text_or_empty :: "string option \<Rightarrow> string" where
  "text_or_empty t = (case t of None \<Rightarrow> '''' | Some s \<Rightarrow> s)"

fun text_loop :: "page list \<Rightarrow> string \<Rightarrow> string outcome" where
  "text_loop [] full_text = Returns full_text"
| "text_loop (p # ps) full_text =
     (case page_text p of
        Raises e \<Rightarrow> Raises e
      | Returns t \<Rightarrow> text_loop ps (full_text @ text_or_empty t @ ''\<newline>\<newline>''))"

definition extract_text_from_pdf :: "pdf \<Rightarrow> string outcome" where
  "extract_text_from_pdf pdf_bytes =
     (case obind (pdf_pages pdf_bytes) (\<lambda>pages. text_loop pages '''') of
        Returns full_text \<Rightarrow> Returns full_text
      | Raises e \<Rightarrow>
          if is_Exception e
          then Raises (Exc OtherException (''Failed to extract text from PDF: '' @ exc_str e))
          else Raises e)"

definition extract_purchase_order_data :: "pdf \<Rightarrow> string \<Rightarrow> pyval outcome" where
  "extract_purchase_order_data pdf_bytes filename =
     obind (extract_text_from_pdf pdf_bytes) (\<lambda>full_text.
       parse_purchase_order_data full_text filename)"





section \<open>Structured-entity extractor\<close>

definition py_set_add :: "'a list \<Rightarrow> 'a \<Rightarrow> 'a list" where
  "py_set_add s x = (if x \<in> set s then s else s @ [x])"

definition list_set :: "'a list \<Rightarrow> 'a list" where
  "list_set xs = foldl py_set_add [] xs"

abbreviation dash_dot_space :: regex where
  "dash_dot_space \<equiv> Class False [Lit CHR ''-'', Lit CHR ''.'', Cat Space]"

abbreviation slash_dash :: regex where
  "slash_dash \<equiv> Class False [Lit CHR ''/'', Lit CHR ''-'']"

definition structured_patterns :: "(string \<times> regex) list" where
  "structured_patterns =
     [(''emails'',
         seqs [WordB,
               Plus (Class False [Range CHR ''A'' CHR ''Z'', Range CHR ''a'' CHR ''z'',
                                  Range CHR ''0'' CHR ''9'', Lit CHR ''.'', Lit CHR ''_'',
                                  Lit CHR ''%'', Lit CHR ''+'', Lit CHR ''-'']),
               Chr CHR ''@'',
               Plus (Class False [Range CHR ''A'' CHR ''Z'', Range CHR ''a'' CHR ''z'',
                                  Range CHR ''0'' CHR ''9'', Lit CHR ''.'', Lit CHR ''-'']),
               Chr CHR ''.'',
               Rep (Class False [Range CHR ''A'' CHR ''Z'', Lit CHR ''|'', Range CHR ''a'' CHR ''z''])
                   2 None,
               WordB]),
      (''phone_numbers'',
         seqs [WordB,
               Opt (seqs [Opt (Chr CHR ''+''), Rep digit_class 1 (Some 3), Opt dash_dot_space]),
               Opt (Chr CHR ''(''), Rep digit_class 3 (Some 3), Opt (Chr CHR '')''),
               Opt dash_dot_space, Rep digit_class 3 (Some 3),
               Opt dash_dot_space, Rep digit_class 4 (Some 4),
               WordB]),
      (''urls'',
         seqs [lit ''http'', Opt (Chr CHR ''s''), lit ''://'',
               Plus (Alt (Class False [Lit CHR ''-'', Cat Word, Lit CHR ''.''])
                         (Seq (Chr CHR ''%'')
                              (Rep (Class False [Cat Digit, Range CHR ''a'' CHR ''f'',
                                                 Range CHR ''A'' CHR ''F'']) 2 (Some 2)))),
               Star (Class False [Lit CHR ''/'', Cat Word, Lit CHR ''.'', Lit CHR ''-'']),
               Opt (Chr CHR ''?''),
               Star (Class False [Lit CHR ''/'', Cat Word, Range CHR ''.'' CHR ''='',
                                  Lit CHR ''&''])]),
      (''dates'',
         seqs [WordB, Rep digit_class 1 (Some 2), slash_dash, Rep digit_class 1 (Some 2),
               slash_dash, Rep digit_class 2 (Some 4), WordB])]"

definition extract_structured_data :: "string \<Rightarrow> (string \<times> string list) list" where
  "extract_structured_data text =
     map (\<lambda>(key, pattern). (key, list_set (re_findall True pattern text))) structured_patterns"

section \<open>The safe-extraction wrapper\<close>

text \<open>
  C1. For every rule, text and default, \<open>safe_extract\<close> returns the default whenever the
  rule raises an error (any exception derived from Python's \<open>Exception\<close>), returns
  \<open>None\<close> or returns the empty string; otherwise it returns the rule's result unchanged.
  It never propagates an error: whatever it re-raises is not an \<open>Exception\<close>
  (\<open>KeyboardInterrupt\<close>, \<open>SystemExit\<close> and \<open>GeneratorExit\<close> are the interpreter's
  non-error exits, which \<open>except Exception\<close> lets through).
\<close>

theorem safe_extract_default_or_verbatim:
  "(\<forall>e. rule text = Raises e \<longrightarrow> is_Exception e \<longrightarrow>
        safe_extract rule text default_value = Returns default_value)
   \<and> (rule text = Returns PyNone \<longrightarrow> safe_extract rule text default_value = Returns default_value)
   \<and> (rule text = Returns (PyStr '''') \<longrightarrow>
        safe_extract rule text default_value = Returns default_value)
   \<and> (\<forall>r. rule text = Returns r \<longrightarrow> r \<noteq> PyNone \<longrightarrow> r \<noteq> PyStr '''' \<longrightarrow>
        safe_extract rule text default_value = Returns r)
   \<and> (\<forall>e. safe_extract rule text default_value = Raises e \<longrightarrow> \<not> is_Exception e)"
  by (auto simp: safe_extract_def split: outcome.splits if_splits)

theorem safe_extract_default_or_verbatim_witness:
  "safe_extract (\<lambda>t. Raises (Exc ValueError ''bad'')) ''abc'' (PyStr ''0'') = Returns (PyStr ''0'')
   \<and> safe_extract (\<lambda>t. Returns PyNone) ''abc'' (PyStr ''0'') = Returns (PyStr ''0'')
   \<and> safe_extract (\<lambda>t. Returns (PyStr '''')) ''abc'' (PyStr ''0'') = Returns (PyStr ''0'')
   \<and> safe_extract (\<lambda>t. Returns (PyStr t)) ''abc'' (PyStr ''0'') = Returns (PyStr ''abc'')
   \<and> safe_extract (\<lambda>t. Raises (Exc SystemExit ''bye'')) ''abc'' (PyStr ''0'')
         = Raises (Exc SystemExit ''bye'')
   \<and> \<not> is_Exception (Exc SystemExit ''bye'')"
  using safe_extract_default_or_verbatim [of "\<lambda>t. Raises (Exc ValueError ''bad'')" "''abc''" "PyStr ''0''"]
        safe_extract_default_or_verbatim [of "\<lambda>t. Returns PyNone" "''abc''" "PyStr ''0''"]
        safe_extract_default_or_verbatim [of "\<lambda>t. Returns (PyStr '''')" "''abc''" "PyStr ''0''"]
        safe_extract_default_or_verbatim [of "\<lambda>t. Returns (PyStr t)" "''abc''" "PyStr ''0''"]
        safe_extract_default_or_verbatim [of "\<lambda>t. Raises (Exc SystemExit ''bye'')" "''abc''" "PyStr ''0''"]
  by (simp add: safe_extract_def)

section \<open>Constant field rules\<close>

text \<open>
  C2. Each constant field rule (company name, address and phone, supplier address, ship-to
  name and address, line items, special instructions, invoicing instructions, MSMED
  declaration, quality documents, governing terms) returns the same value on any two
  texts: its output does not depend on its input.
\<close>

theorem constant_rules_ignore_text:
  "extract_company_name t1 = extract_company_name t2
   \<and> extract_company_address t1 = extract_company_address t2
   \<and> extract_company_phone t1 = extract_company_phone t2
   \<and> extract_supplier_address t1 = extract_supplier_address t2
   \<and> extract_ship_to_name t1 = extract_ship_to_name t2
   \<and> extract_ship_to_address t1 = extract_ship_to_address t2
   \<and> extract_line_items t1 = extract_line_items t2
   \<and> extract_special_instructions t1 = extract_special_instructions t2
   \<and> extract_invoicing_instructions t1 = extract_invoicing_instructions t2
   \<and> extract_msmed_declaration t1 = extract_msmed_declaration t2
   \<and> extract_quality_documents t1 = extract_quality_documents t2
   \<and> extract_governing_terms t1 = extract_governing_terms t2"
  unfolding extract_company_name_def extract_company_address_def extract_company_phone_def
    extract_supplier_address_def extract_ship_to_name_def extract_ship_to_address_def
    extract_line_items_def extract_special_instructions_def extract_invoicing_instructions_def
    extract_msmed_declaration_def extract_quality_documents_def extract_governing_terms_def
  by (intro conjI refl)

section \<open>Rules never exit the interpreter\<close>

definition no_exit :: "(string \<Rightarrow> pyval outcome) \<Rightarrow> string \<Rightarrow> bool" where
  "no_exit f t = (\<forall>e. f t = Raises e \<longrightarrow> is_Exception e)"

definition safe_value :: "(string \<Rightarrow> pyval outcome) \<Rightarrow> string \<Rightarrow> pyval \<Rightarrow> pyval" where
  "safe_value f t d =
     (case f t of
        Returns r \<Rightarrow> if r \<noteq> PyNone \<and> r \<noteq> PyStr '''' then r else d
      | Raises e \<Rightarrow> d)"

lemma safe_extract_no_exit:
  "no_exit f t \<Longrightarrow> safe_extract f t d = Returns (safe_value f t d)"
  by (auto simp: no_exit_def safe_extract_def safe_value_def split: outcome.splits)

lemma group_strip_no_exit: "group_strip m n = Raises e \<Longrightarrow> is_Exception e"
  by (auto simp: group_strip_def split: option.splits)

lemma py_float_raises: "py_float s = Raises e \<Longrightarrow> \<exists>msg. e = Exc ValueError msg"
  by (auto simp: py_float_def Let_def split: option.splits if_splits list.splits)

lemma no_exit_search_group:
  "no_exit (\<lambda>t. case re_search ic p t of Some m \<Rightarrow> group_strip m n | None \<Rightarrow> Returns PyNone) t"
  by (auto simp: no_exit_def split: option.splits dest: group_strip_no_exit)

lemma no_exit_rules:
  "no_exit extract_company_name t" "no_exit extract_company_address t"
  "no_exit extract_company_phone t" "no_exit extract_po_number t"
  "no_exit (\<lambda>t. extract_date t ty) t" "no_exit extract_revision_number t"
  "no_exit extract_buyer_contact t" "no_exit extract_buyer_phone t"
  "no_exit extract_buyer_email t" 
  "no_exit extract_supplier_address t" "no_exit extract_supplier_phone t"
  "no_exit extract_supplier_email t" "no_exit extract_gsl_number t"
  "no_exit extract_site_code t" "no_exit extract_supplier_code t"
  "no_exit extract_vendor_gst t" "no_exit extract_ship_to_name t"
  "no_exit extract_ship_to_address t" "no_exit extract_invoice_email t"
  "no_exit extract_incoterms t" "no_exit extract_currency t"
  "no_exit extract_payment_terms t" "no_exit extract_project_number t"
  "no_exit extract_sales_order_number t" "no_exit extract_shipping_via t"
  "no_exit extract_line_items t" 
  "no_exit extract_special_instructions t" "no_exit extract_invoicing_instructions t"
  "no_exit extract_msmed_declaration t" "no_exit extract_quality_documents t"
  "no_exit extract_pan_card t" "no_exit extract_gstn_number t"
  "no_exit extract_governing_terms t"
  unfolding no_exit_def extract_company_name_def extract_company_address_def
    extract_company_phone_def extract_po_number_def extract_date_def
    extract_revision_number_def extract_buyer_contact_def extract_buyer_phone_def
    extract_buyer_email_def extract_supplier_address_def extract_supplier_phone_def
    extract_supplier_email_def extract_gsl_number_def extract_site_code_def
    extract_supplier_code_def extract_vendor_gst_def extract_ship_to_name_def
    extract_ship_to_address_def extract_invoice_email_def extract_incoterms_def
    extract_currency_def extract_payment_terms_def extract_project_number_def
    extract_sales_order_number_def extract_shipping_via_def extract_line_items_def
    extract_special_instructions_def extract_invoicing_instructions_def
    extract_msmed_declaration_def extract_quality_documents_def extract_pan_card_def
    extract_gstn_number_def extract_governing_terms_def
  by (auto split: option.splits dest: group_strip_no_exit)

lemma no_exit_supplier_name_loop:
  "supplier_name_loop ps t = Raises e \<Longrightarrow> is_Exception e"
  by (induction ps) (auto split: option.splits if_splits dest: group_strip_no_exit)

lemma no_exit_supplier_name: "no_exit extract_supplier_name t"
  by (auto simp: no_exit_def extract_supplier_name_def dest: no_exit_supplier_name_loop)

lemma no_exit_total_amount: "no_exit extract_total_amount t"
  by (auto simp: no_exit_def extract_total_amount_def
      split: option.splits outcome.splits exc.splits exc_class.splits dest: py_float_raises)

section \<open>Fields of the assembled record\<close>

definition po_field :: "pyval outcome \<Rightarrow> string \<Rightarrow> string \<Rightarrow> pyval option" where
  "po_field res grp key =
     (case res of
        Returns r \<Rightarrow> (case py_get r grp of Some g \<Rightarrow> py_get g key | None \<Rightarrow> None)
      | Raises e \<Rightarrow> None)"

lemmas parse_simps = parse_purchase_order_data_def mk_dict_def obind_def safe_extract_no_exit
  no_exit_rules no_exit_supplier_name no_exit_total_amount


lemma total_pages_field:
  "po_field (parse_purchase_order_data text filename) ''metadata'' ''total_pages''
     = Some (PyInt (if CHR 0x0C \<in> set text then int (length (py_split (CHR 0x0C) text)) else 1))"
  by (simp add: parse_simps po_field_def)

lemma parse_returns: "\<exists>r. parse_purchase_order_data text filename = Returns r"
  by (simp add: parse_simps)

lemma length_py_split: "length (py_split c xs) = Suc (length (filter (\<lambda>x. x = c) xs))"
  by (induction xs) (auto split: list.splits)

lemma text_loop_returns:
  "map page_text pages = map Returns ts \<Longrightarrow>
   text_loop pages acc = Returns (acc @ concat (map (\<lambda>t. text_or_empty t @ ''\<newline>\<newline>'') ts))"
proof (induction pages arbitrary: acc ts)
  case Nil
  then show ?case by simp
next
  case (Cons p ps)
  then obtain t ts' where ts: "ts = t # ts'" and p: "page_text p = Returns t"
    and rest: "map page_text ps = map Returns ts'"
    by (cases ts) auto
  show ?case using Cons.IH[OF rest] by (simp add: ts p)
qed

lemma extract_text_from_pdf_returns:
  assumes "pdf_pages pdf_bytes = Returns pages" and "map page_text pages = map Returns ts"
  shows "extract_text_from_pdf pdf_bytes
           = Returns (concat (map (\<lambda>t. text_or_empty t @ ''\<newline>\<newline>'') ts))"
  using text_loop_returns[OF assms(2), of "''''"] assms(1)
  by (simp add: extract_text_from_pdf_def obind_def)

lemma no_form_feed_concat:
  assumes "\<forall>t\<in>set ts. CHR 0x0C \<notin> set (text_or_empty t)"
  shows "CHR 0x0C \<notin> set (concat (map (\<lambda>t. text_or_empty t @ ''\<newline>\<newline>'') ts))"
  using assms by (induction ts) auto

text \<open>
  C10. For every text without a form feed and every file name, the \<open>total_pages\<close> entry of the
  \<open>metadata\<close> of the assembled purchase-order record is 1. The purchase-order text pipeline
  only appends two newlines after each page text, so for page texts that contain no form
  feed the reported count is 1 whatever the number of pages.
\<close>

theorem purchase_order_total_pages_one:
  "(CHR 0x0C \<notin> set text \<longrightarrow>
      po_field (parse_purchase_order_data text filename) ''metadata'' ''total_pages''
        = Some (PyInt 1))
   \<and> (pdf_pages pdf_bytes = Returns pages \<longrightarrow> map page_text pages = map Returns ts \<longrightarrow>
        (\<forall>t\<in>set ts. CHR 0x0C \<notin> set (text_or_empty t)) \<longrightarrow>
      po_field (extract_purchase_order_data pdf_bytes filename) ''metadata'' ''total_pages''
        = Some (PyInt 1))"
proof (intro conjI impI)
  assume "CHR 0x0C \<notin> set text"
  then show "po_field (parse_purchase_order_data text filename) ''metadata'' ''total_pages''
        = Some (PyInt 1)"
    by (simp add: total_pages_field)
next
  assume pg: "pdf_pages pdf_bytes = Returns pages"
    and ts: "map page_text pages = map Returns ts"
    and ff: "\<forall>t\<in>set ts. CHR 0x0C \<notin> set (text_or_empty t)"
  let ?full = "concat (map (\<lambda>t. text_or_empty t @ ''\<newline>\<newline>'') ts)"
  have "extract_purchase_order_data pdf_bytes filename = parse_purchase_order_data ?full filename"
    by (simp add: extract_purchase_order_data_def extract_text_from_pdf_returns[OF pg ts] obind_def)
  moreover have "CHR 0x0C \<notin> set ?full"
    using no_form_feed_concat[OF ff] .
  ultimately show "po_field (extract_purchase_order_data pdf_bytes filename) ''metadata'' ''total_pages''
        = Some (PyInt 1)"
    by (simp add: total_pages_field)
qed

definition three_pages :: pdf where
  "three_pages =
     \<lparr>pdf_reader = Returns \<lparr>rd_title = PyStr ''PO'', rd_author = PyStr '''', rd_pages = 3\<rparr>,
      pdf_pages = Returns
        [\<lparr>page_text = Returns (Some ''PURCHASE ORDER NO: 1''), page_width = PyInt 595, page_height = PyInt 842\<rparr>,
         \<lparr>page_text = Returns None, page_width = PyInt 595, page_height = PyInt 842\<rparr>,
         \<lparr>page_text = Returns (Some ''Total''), page_width = PyInt 595, page_height = PyInt 842\<rparr>]\<rparr>"

theorem purchase_order_total_pages_one_witness:
  "CHR 0x0C \<notin> set ''PURCHASE ORDER NO: 1''
   \<and> po_field (parse_purchase_order_data ''PURCHASE ORDER NO: 1'' ''a.pdf'') ''metadata'' ''total_pages''
        = Some (PyInt 1)
   \<and> po_field (extract_purchase_order_data three_pages ''a.pdf'') ''metadata'' ''total_pages''
        = Some (PyInt 1)"
proof -
  have h1: "CHR 0x0C \<notin> set ''PURCHASE ORDER NO: 1''" by simp
  have h2: "pdf_pages three_pages = Returns
        [\<lparr>page_text = Returns (Some ''PURCHASE ORDER NO: 1''), page_width = PyInt 595, page_height = PyInt 842\<rparr>,
         \<lparr>page_text = Returns None, page_width = PyInt 595, page_height = PyInt 842\<rparr>,
         \<lparr>page_text = Returns (Some ''Total''), page_width = PyInt 595, page_height = PyInt 842\<rparr>]"
    by (simp add: three_pages_def)
  have h3: "map page_text
        [\<lparr>page_text = Returns (Some ''PURCHASE ORDER NO: 1''), page_width = PyInt 595, page_height = PyInt 842\<rparr>,
         \<lparr>page_text = Returns None, page_width = PyInt 595, page_height = PyInt 842\<rparr>,
         \<lparr>page_text = Returns (Some ''Total''), page_width = PyInt 595, page_height = PyInt 842\<rparr>]
       = map Returns [Some ''PURCHASE ORDER NO: 1'', None, Some ''Total'']"
    by simp
  have h4: "\<forall>t\<in>set [Some ''PURCHASE ORDER NO: 1'', None, Some ''Total'']. CHR 0x0C \<notin> set (text_or_empty t)"
    by (simp add: text_or_empty_def)
  from purchase_order_total_pages_one[of "''PURCHASE ORDER NO: 1''" "''a.pdf''" three_pages _ _ ]
    h1 h2 h3 h4 show ?thesis by blast
qed

section \<open>Document text and structured entities\<close>












lemma set_foldl_py_set_add: "set (foldl py_set_add acc xs) = set acc \<union> set xs"
  by (induction xs arbitrary: acc) (auto simp: py_set_add_def)

lemma distinct_foldl_py_set_add: "distinct acc \<Longrightarrow> distinct (foldl py_set_add acc xs)"
  by (induction xs arbitrary: acc) (auto simp: py_set_add_def)

lemma list_set_props: "distinct (list_set xs)" "set (list_set xs) = set xs"
  by (simp_all add: list_set_def distinct_foldl_py_set_add set_foldl_py_set_add)

lemma list_set_Nil: "list_set [] = []"
  by (simp add: list_set_def)

text \<open>
  C3. For every text the structured-entity extractor returns the four categories
  \<open>emails\<close>, \<open>phone_numbers\<close>, \<open>urls\<close> and \<open>dates\<close>; each category's collection has no
  duplicates and holds exactly the values matched by the category's pattern, and a category
  whose pattern matches nowhere is present with the empty collection.
\<close>

theorem structured_entities_deduplicated:
  "map fst (extract_structured_data text) = [''emails'', ''phone_numbers'', ''urls'', ''dates'']
   \<and> (\<forall>key\<in>set [''emails'', ''phone_numbers'', ''urls'', ''dates''].
        \<exists>pattern vs. map_of structured_patterns key = Some pattern
          \<and> map_of (extract_structured_data text) key = Some vs
          \<and> distinct vs
          \<and> set vs = set (re_findall True pattern text)
          \<and> (re_findall True pattern text = [] \<longrightarrow> vs = []))"
  by (simp add: extract_structured_data_def structured_patterns_def list_set_props)
     (metis list_set_props(2) set_empty)

theorem structured_entities_deduplicated_witness:
  "''dates'' \<in> set [''emails'', ''phone_numbers'', ''urls'', ''dates'']
   \<and> re_findall True (the (map_of structured_patterns ''dates'')) ''a@b.co a@b.co'' = []
   \<and> map_of (extract_structured_data ''a@b.co a@b.co'') ''dates'' = Some []
   \<and> map_of (extract_structured_data ''a@b.co a@b.co'') ''emails'' = Some [''a@b.co'']"
proof -
  have d: "re_findall True (the (map_of structured_patterns ''dates'')) ''a@b.co a@b.co'' = []"
    by code_simp
  have m: "map_of (extract_structured_data ''a@b.co a@b.co'') ''emails'' = Some [''a@b.co'']"
    by code_simp
  have k: "''dates'' \<in> set [''emails'', ''phone_numbers'', ''urls'', ''dates'']" by simp
  from structured_entities_deduplicated[of "''a@b.co a@b.co''"] k
  obtain pattern vs where "map_of structured_patterns ''dates'' = Some pattern"
    and "map_of (extract_structured_data ''a@b.co a@b.co'') ''dates'' = Some vs"
    and "re_findall True pattern ''a@b.co a@b.co'' = [] \<longrightarrow> vs = []"
    by blast
  with d have "map_of (extract_structured_data ''a@b.co a@b.co'') ''dates'' = Some []"
    by simp
  with d m k show ?thesis by blast
qed

section \<open>Greedy matching of labels and character classes\<close>



definition run :: "(char \<Rightarrow> bool) \<Rightarrow> string \<Rightarrow> nat \<Rightarrow> nat" where
  "run P text i = length (takeWhile P (drop i text))"



lemma ord_eq_iff: "ord c = ord d \<longleftrightarrow> c = d"
  by (simp add: ord_def)

lemma ord_less_256: "ord c < 256"
  by (simp add: ord_def)

lemma lower_ord_fix: "n < 65 \<Longrightarrow> lower_ord m = n \<longleftrightarrow> m = n"
  by (auto simp: lower_ord_def)

lemma lower_ord_small: "n < 65 \<Longrightarrow> lower_ord n = n"
  by (simp add: lower_ord_def)

lemma ord_chars:
  "ord CHR ''.'' = 46" "ord CHR '':'' = 58" "ord CHR '','' = 44" "ord (CHR 0x0A) = 10"
  "ord CHR ''A'' = 65" "ord CHR ''Z'' = 90" "ord CHR ''a'' = 97" "ord CHR ''z'' = 122"
  "ord CHR ''0'' = 48" "ord CHR ''9'' = 57" "ord CHR ''-'' = 45"
  by (simp_all add: ord_def)

lemma item_lit_small:
  "ord x < 65 \<Longrightarrow> item_match True (Lit x) c = (c = x)"
  using lower_ord_fix[of "ord x" "ord c"] by (simp add: lower_ord_small ord_eq_iff)









lemma cm_digit_comma:
  "class_match True False [Cat Digit, Lit CHR '',''] c = (is_digit c \<or> c = CHR '','')"
  by (simp add: class_match_def item_lit_small ord_chars del: item_match.simps(1))

lemma cm_dot: "class_match True False [Lit CHR ''.''] c = (c = CHR ''.'')"
  by (simp add: class_match_def item_lit_small ord_chars del: item_match.simps(1))

lemma cm_not_newline: "class_match True True [Lit CHR 0x0A] c = (c \<noteq> CHR 0x0A)"
  by (simp add: class_match_def item_lit_small ord_chars del: item_match.simps(1))


subsection \<open>runs\<close>




lemma run_bound: "i \<le> length text \<Longrightarrow> i + run P text i \<le> length text"
  using length_takeWhile_le[of P "drop i text"] by (simp add: run_def)


lemma run_stop: "i + run P text i < length text \<Longrightarrow> \<not> P (text ! (i + run P text i))"
  using nth_length_takeWhile[of P "drop i text"] length_takeWhile_le[of P "drop i text"]
  by (simp add: run_def)

subsection \<open>engine lemmas\<close>






section \<open>Labelled patterns\<close>





























lemma not_space_digit: "is_digit c \<Longrightarrow> \<not> is_space c"
  by (auto simp: is_digit_def is_space_def)
















section \<open>Buyer contact\<close>

text \<open>
  C8. The buyer contact is meant to end at the end of the label's line. The character class
  of the capture contains \<open>\s\<close>, which matches the newline itself, so the capture runs on
  over following lines made of letters, spaces and periods and stops at the last newline of
  that run: here the value returned holds two lines.
\<close>

theorem extract_buyer_contact_past_newline:
  "extract_buyer_contact ''Buyer Contact: Ann Lee\<newline>Ship To\<newline>GE & Co''
     = Returns (PyStr ''Ann Lee\<newline>Ship To'')"
  by code_simp

end
